theory Spec2Isabelle
  imports Complex_Main
begin

section \<open>The token speed monitor (src/monitors/TokenSpeedMonitor.ts)\<close>

text \<open>
  The class \<open>TokenSpeedMonitor\<close> is embedded as a record of its private fields and one
  HOL function per method; each method takes the monitor and returns the updated one.
  The repository holds a second copy of the class. Its fields and the bodies of
  \<open>addTokens\<close>, \<open>calculateSpeed\<close>, \<open>throttledUpdateDisplay\<close>, \<open>updateDisplay\<close>,
  \<open>getSpeedIcon\<close>, \<open>resetMetrics\<close> and \<open>clearTimeouts\<close> are the same; it adds console
  logging and information messages, and its constructor also assigns a text to the status
  bar item and shows it. The model follows the first copy.

  Numbers. Token counts and the millisecond readings of \<open>Date.now()\<close> are integers
  (\<open>int\<close>). The speeds and the elapsed time are quotients; they are modelled as \<open>real\<close>,
  that is, the rounding of IEEE-754 doubles is not modelled. Every division of the source
  is guarded by a test that the divisor is positive, and the guards are kept, so the
  totalised division of HOL is never reached with a zero divisor.

  Environment. Each \<open>Date.now()\<close> of the source is a separate read of the system clock;
  the value read is a parameter of the function that reads it, so \<open>addTokens\<close> takes three
  readings (its own, the one of \<open>calculateSpeed\<close> and the one of
  \<open>throttledUpdateDisplay\<close>). The configuration option \<open>showIcon\<close> read by
  \<open>updateDisplay\<close> is a parameter as well.
\<close>

subsection \<open>Configuration constants\<close>

definition SPEED_BUFFER_SIZE :: int where
  "SPEED_BUFFER_SIZE = 10"

definition DISPLAY_THROTTLE_MS :: int where
  "DISPLAY_THROTTLE_MS = 100"

definition POST_TRACKING_DISPLAY_MS :: int where
  "POST_TRACKING_DISPLAY_MS = 5000"

definition METRICS_UPDATE_INTERVAL_MS :: int where
  "METRICS_UPDATE_INTERVAL_MS = 500"

subsection \<open>Data\<close>

record TokenDataPoint =
  count :: int
  timestamp :: int

record TokenSpeedMetrics =
  currentSpeed :: real
  averageSpeed :: real
  peakSpeed :: real
  totalTokens :: int
  elapsedTime :: real

text \<open>
  The five strings returned by \<open>getSpeedIcon\<close> are emoji; they are named here in the
  order of the source: snail (U+1F40C), walker (U+1F6B6), runner (U+1F3C3), car (U+1F697),
  rocket (U+1F680).
\<close>

datatype icon = Snail | Walker | Runner | Car | Rocket

text \<open>
  The text of the status bar item. \<open>SpeedText i v\<close> stands for the template string
  \<open>`${icon}${speed.toFixed(1)} t/s`\<close> with the icon prefix \<open>i\<close> (\<open>None\<close> when the option
  \<open>showIcon\<close> is off) and the speed \<open>v\<close>; the decimal formatting is not modelled.
\<close>

datatype status_text = NoText | SpeedText "icon option" real

record StatusBarItem =
  itemText :: status_text
  itemVisible :: bool
  itemDisposed :: bool

text \<open>The three events of the monitor, with their payloads.\<close>

datatype event =
    TrackingStarted string
  | MetricsUpdated TokenSpeedMetrics
  | TrackingEnded TokenSpeedMetrics

text \<open>
  A timer handle (\<open>NodeJS.Timeout | null\<close>) is \<open>None\<close> for \<open>null\<close>. A handle that is set
  is \<open>Pending\<close> while its callback can still run; the one-shot hide timer is \<open>Expired\<close>
  once its callback has run (the field keeps the stale handle).
\<close>

datatype timer = Pending | Expired

text \<open>
  The monitor. \<open>emitted\<close> is the sequence of events passed to \<open>emit\<close> so far, and
  \<open>displayLog\<close> is a history variable: the clock readings of \<open>throttledUpdateDisplay\<close> at
  which \<open>updateDisplay\<close> assigned the text of the status bar item, oldest first. Neither is
  read by any method.
\<close>

record TokenSpeedMonitor =
  statusBarItem :: StatusBarItem
  currentMetrics :: TokenSpeedMetrics
  isTracking :: bool
  startTime :: int
  tokenBuffer :: "TokenDataPoint list"
  lastDisplayUpdate :: int
  metricsUpdateInterval :: "timer option"
  hideTimeout :: "timer option"
  emitted :: "event list"
  displayLog :: "int list"

subsection \<open>Methods\<close>

definition emit :: "event \<Rightarrow> TokenSpeedMonitor \<Rightarrow> TokenSpeedMonitor" where
  "emit e s = s\<lparr>emitted := emitted s @ [e]\<rparr>"

definition resetMetrics :: "TokenSpeedMonitor \<Rightarrow> TokenSpeedMonitor" where
  "resetMetrics s =
     s\<lparr>currentMetrics :=
         \<lparr>currentSpeed = 0, averageSpeed = 0, peakSpeed = 0, totalTokens = 0, elapsedTime = 0\<rparr>,
       tokenBuffer := []\<rparr>"

definition clearTimeouts :: "TokenSpeedMonitor \<Rightarrow> TokenSpeedMonitor" where
  "clearTimeouts s =
     (let s1 = (if metricsUpdateInterval s \<noteq> None then s\<lparr>metricsUpdateInterval := None\<rparr> else s)
      in (if hideTimeout s1 \<noteq> None then s1\<lparr>hideTimeout := None\<rparr> else s1))"

text \<open>
  The constructor of the first copy: the field initialisers, a fresh status bar item
  (neither shown nor given a text), then \<open>resetMetrics\<close>. The lookup of the position
  option is taken to return (the first copy calls \<open>vscode.getConfiguration\<close>, the second
  \<open>vscode.workspace.getConfiguration\<close>); the alignment, tooltip and command of the item
  are attributes of the rendering only and are left out. In the second copy a monitor
  just constructed has a shown item with a text instead; no property below reads the text
  or the visibility of the item of a monitor just constructed.
\<close>

definition newTokenSpeedMonitor :: TokenSpeedMonitor where
  "newTokenSpeedMonitor =
     resetMetrics
       \<lparr>statusBarItem = \<lparr>itemText = NoText, itemVisible = False, itemDisposed = False\<rparr>,
        currentMetrics =
          \<lparr>currentSpeed = 0, averageSpeed = 0, peakSpeed = 0, totalTokens = 0, elapsedTime = 0\<rparr>,
        isTracking = False,
        startTime = 0,
        tokenBuffer = [],
        lastDisplayUpdate = 0,
        metricsUpdateInterval = None,
        hideTimeout = None,
        emitted = [],
        displayLog = []\<rparr>"

definition startTracking :: "string \<Rightarrow> int \<Rightarrow> TokenSpeedMonitor \<Rightarrow> TokenSpeedMonitor" where
  "startTracking modelName now s =
     (let s1 = clearTimeouts s;
          s2 = s1\<lparr>isTracking := True\<rparr>;
          s3 = s2\<lparr>startTime := now\<rparr>;
          s4 = resetMetrics s3;
          s5 = s4\<lparr>statusBarItem := (statusBarItem s4)\<lparr>itemVisible := True\<rparr>\<rparr>;
          s6 = s5\<lparr>metricsUpdateInterval := Some Pending\<rparr>
      in emit (TrackingStarted modelName) s6)"

definition getSpeedIcon :: "real \<Rightarrow> icon" where
  "getSpeedIcon speed =
     (if speed < 10 then Snail
      else if speed < 30 then Walker
      else if speed < 60 then Runner
      else if speed < 100 then Car
      else Rocket)"

text \<open>
  \<open>updateDisplay\<close>; the parameter \<open>now\<close> is the reading of the caller and only feeds the
  history variable.
\<close>

definition updateDisplay :: "int \<Rightarrow> bool \<Rightarrow> TokenSpeedMonitor \<Rightarrow> TokenSpeedMonitor" where
  "updateDisplay now showIcon s =
     (if \<not> isTracking s then s
      else
        let speed = currentSpeed (currentMetrics s);
            icon = (if showIcon then Some (getSpeedIcon speed) else None)
        in s\<lparr>statusBarItem := (statusBarItem s)\<lparr>itemText := SpeedText icon speed\<rparr>,
             displayLog := displayLog s @ [now]\<rparr>)"

definition throttledUpdateDisplay :: "int \<Rightarrow> bool \<Rightarrow> TokenSpeedMonitor \<Rightarrow> TokenSpeedMonitor" where
  "throttledUpdateDisplay now showIcon s =
     (if now - lastDisplayUpdate s \<ge> DISPLAY_THROTTLE_MS
      then (updateDisplay now showIcon s)\<lparr>lastDisplayUpdate := now\<rparr>
      else s)"

definition calculateSpeed :: "int \<Rightarrow> TokenSpeedMonitor \<Rightarrow> TokenSpeedMonitor" where
  "calculateSpeed now s =
     (let elapsed = real_of_int (now - startTime s) / 1000;
          m0 = (currentMetrics s)\<lparr>elapsedTime := elapsed\<rparr>
      in if elapsed > 0 then
           let m1 =
                 (if length (tokenBuffer s) > 1 then
                    let recentTokens = foldl (\<lambda>sum point. sum + count point) 0 (tokenBuffer s);
                        timeSpan = real_of_int (now - timestamp (tokenBuffer s ! 0)) / 1000
                    in if timeSpan > 0
                       then m0\<lparr>currentSpeed := real_of_int recentTokens / timeSpan\<rparr>
                       else m0
                  else m0);
               m2 = m1\<lparr>averageSpeed := real_of_int (totalTokens m1) / elapsed\<rparr>;
               m3 = (if currentSpeed m2 > peakSpeed m2
                     then m2\<lparr>peakSpeed := currentSpeed m2\<rparr> else m2)
           in s\<lparr>currentMetrics := m3\<rparr>
         else s\<lparr>currentMetrics := m0\<rparr>)"

text \<open>
  \<open>addTokens\<close>; \<open>now\<close> is its own clock reading, \<open>nowCalc\<close> the one of \<open>calculateSpeed\<close>
  and \<open>nowDisp\<close> the one of \<open>throttledUpdateDisplay\<close>.
\<close>

definition addTokens ::
  "int \<Rightarrow> int \<Rightarrow> int \<Rightarrow> int \<Rightarrow> bool \<Rightarrow> TokenSpeedMonitor \<Rightarrow> TokenSpeedMonitor" where
  "addTokens cnt now nowCalc nowDisp showIcon s =
     (if \<not> isTracking s \<or> cnt = 0 then s
      else
        let s1 = s\<lparr>currentMetrics :=
                    (currentMetrics s)\<lparr>totalTokens := totalTokens (currentMetrics s) + cnt\<rparr>\<rparr>;
            s2 = s1\<lparr>tokenBuffer := tokenBuffer s1 @ [\<lparr>count = cnt, timestamp = now\<rparr>]\<rparr>;
            cutoffTime = now - SPEED_BUFFER_SIZE * DISPLAY_THROTTLE_MS;
            s3 = s2\<lparr>tokenBuffer := filter (\<lambda>point. timestamp point > cutoffTime) (tokenBuffer s2)\<rparr>
        in throttledUpdateDisplay nowDisp showIcon (calculateSpeed nowCalc s3))"

text \<open>
  \<open>stopTracking\<close>: the event carries the snapshot, and the hide timer is armed.
\<close>

definition stopTracking :: "TokenSpeedMonitor \<Rightarrow> TokenSpeedMonitor" where
  "stopTracking s =
     (let s1 = s\<lparr>isTracking := False\<rparr>;
          s2 = clearTimeouts s1;
          s3 = emit (TrackingEnded (currentMetrics s2)) s2
      in s3\<lparr>hideTimeout := Some Pending\<rparr>)"

definition dispose :: "TokenSpeedMonitor \<Rightarrow> TokenSpeedMonitor" where
  "dispose s =
     (let s1 = clearTimeouts s
      in s1\<lparr>statusBarItem := (statusBarItem s1)\<lparr>itemDisposed := True\<rparr>\<rparr>)"

text \<open>
  The two timer callbacks. The callback of \<open>setInterval\<close> runs (every
  \<open>METRICS_UPDATE_INTERVAL_MS\<close>) only while its handle is set; the callback of
  \<open>setTimeout\<close> runs once (\<open>POST_TRACKING_DISPLAY_MS\<close> after \<open>stopTracking\<close>) unless
  it was cleared before.
\<close>

definition metricsUpdateTick :: "TokenSpeedMonitor \<Rightarrow> TokenSpeedMonitor" where
  "metricsUpdateTick s =
     (if metricsUpdateInterval s = Some Pending
      then (if isTracking s then emit (MetricsUpdated (currentMetrics s)) s else s)
      else s)"

definition hideTimeoutFire :: "TokenSpeedMonitor \<Rightarrow> TokenSpeedMonitor" where
  "hideTimeoutFire s =
     (if hideTimeout s = Some Pending
      then
        let s1 = s\<lparr>hideTimeout := Some Expired\<rparr>
        in (if \<not> isTracking s1
            then s1\<lparr>statusBarItem := (statusBarItem s1)\<lparr>itemVisible := False\<rparr>\<rparr>
            else s1)
      else s)"

subsection \<open>Runs of the monitor\<close>

text \<open>
  Everything that can happen to a monitor: a call of one of its public methods, with the
  values it reads from the environment, or one of its timer callbacks.
\<close>

datatype operation =
    StartTracking string int
  | AddTokens int int int int bool
  | StopTracking
  | ResetMetrics
  | Dispose
  | MetricsUpdateTick
  | HideTimeoutFire

fun step :: "operation \<Rightarrow> TokenSpeedMonitor \<Rightarrow> TokenSpeedMonitor" where
  "step (StartTracking modelName now) s = startTracking modelName now s"
| "step (AddTokens cnt now nowCalc nowDisp showIcon) s = addTokens cnt now nowCalc nowDisp showIcon s"
| "step StopTracking s = stopTracking s"
| "step ResetMetrics s = resetMetrics s"
| "step Dispose s = dispose s"
| "step MetricsUpdateTick s = metricsUpdateTick s"
| "step HideTimeoutFire s = hideTimeoutFire s"

fun run :: "operation list \<Rightarrow> TokenSpeedMonitor \<Rightarrow> TokenSpeedMonitor" where
  "run [] s = s"
| "run (x # xs) s = run xs (step x s)"

subsection \<open>Vocabulary for the properties\<close>

text \<open>
  The operations that run \<open>resetMetrics\<close>, the operations that begin a session, and the
  count an operation passes to \<open>addTokens\<close> (0 for every other operation).
\<close>

fun resetsMetrics :: "operation \<Rightarrow> bool" where
  "resetsMetrics (StartTracking modelName now) = True"
| "resetsMetrics ResetMetrics = True"
| "resetsMetrics x = False"

fun startsTracking :: "operation \<Rightarrow> bool" where
  "startsTracking (StartTracking modelName now) = True"
| "startsTracking x = False"

fun addedCount :: "operation \<Rightarrow> int" where
  "addedCount (AddTokens cnt now nowCalc nowDisp showIcon) = cnt"
| "addedCount x = 0"

text \<open>
  The sum of the counts of the calls of \<open>addTokens\<close> in a run that are made while the
  monitor is tracking, the run starting in state \<open>s\<close>.
\<close>

fun countedTokens :: "operation list \<Rightarrow> TokenSpeedMonitor \<Rightarrow> int" where
  "countedTokens [] s = 0"
| "countedTokens (x # xs) s =
     (if isTracking s then addedCount x else 0) + countedTokens xs (step x s)"

text \<open>A call of \<open>addTokens\<close> given as the tuple of its count and its environment reads.\<close>

abbreviation addCall :: "int \<times> int \<times> int \<times> int \<times> bool \<Rightarrow> operation" where
  "addCall \<equiv> (\<lambda>(cnt, now, nowCalc, nowDisp, showIcon). AddTokens cnt now nowCalc nowDisp showIcon)"

text \<open>
  Concrete runs used to evaluate the model: a session started at instant 0 with two
  arrivals of 5 tokens at 100 ms and 200 ms; a burst of three further arrivals; a session
  in which \<open>resetMetrics\<close> is called between two arrivals; and the operations of a session
  in which arrivals are mixed with timer callbacks, \<open>dispose\<close> and \<open>stopTracking\<close>.
\<close>

definition session :: "operation list" where
  "session =
     [StartTracking ''modelA'' 0, AddTokens 5 100 100 100 True, AddTokens 5 200 200 200 True]"

definition burst :: "operation list" where
  "burst =
     [AddTokens 1 250 250 250 True, AddTokens 1 299 299 299 True, AddTokens 1 300 300 300 True]"

definition interrupted :: "operation list" where
  "interrupted =
     [StartTracking ''modelA'' 0, AddTokens 5 100 100 100 True, ResetMetrics,
      AddTokens 3 200 200 200 True]"

definition mixed :: "operation list" where
  "mixed =
     [AddTokens 5 0 0 0 True, MetricsUpdateTick, AddTokens 5 500 500 500 True, Dispose,
      StopTracking, AddTokens 2 1100 1100 1100 True, HideTimeoutFire]"

section \<open>Basic facts about the methods\<close>

lemmas const_defs = SPEED_BUFFER_SIZE_def DISPLAY_THROTTLE_MS_def

lemma foldl_count: "foldl (\<lambda>sum point. sum + count point) a xs = a + sum_list (map count xs)"
  by (induction xs arbitrary: a) simp_all

lemma clearTimeouts_eq:
  "clearTimeouts s = s\<lparr>metricsUpdateInterval := None, hideTimeout := None\<rparr>"
  by (cases s) (simp add: clearTimeouts_def Let_def)

lemmas eval_defs = addTokens_def newTokenSpeedMonitor_def resetMetrics_def startTracking_def
  stopTracking_def dispose_def metricsUpdateTick_def hideTimeoutFire_def clearTimeouts_eq
  emit_def calculateSpeed_def throttledUpdateDisplay_def updateDisplay_def const_defs Let_def
  getSpeedIcon_def

lemma run_append: "run (xs @ ys) s = run ys (run xs s)"
  by (induction xs arbitrary: s) simp_all

subsection \<open>calculateSpeed\<close>

lemma calculateSpeed_frame:
  "isTracking (calculateSpeed now s) = isTracking s"
  "startTime (calculateSpeed now s) = startTime s"
  "tokenBuffer (calculateSpeed now s) = tokenBuffer s"
  "lastDisplayUpdate (calculateSpeed now s) = lastDisplayUpdate s"
  "displayLog (calculateSpeed now s) = displayLog s"
  "statusBarItem (calculateSpeed now s) = statusBarItem s"
  "emitted (calculateSpeed now s) = emitted s"
  "metricsUpdateInterval (calculateSpeed now s) = metricsUpdateInterval s"
  "hideTimeout (calculateSpeed now s) = hideTimeout s"
  by (simp_all add: calculateSpeed_def Let_def)

lemma calculateSpeed_totalTokens:
  "totalTokens (currentMetrics (calculateSpeed now s)) = totalTokens (currentMetrics s)"
  by (simp add: calculateSpeed_def Let_def)

lemma calculateSpeed_elapsedTime:
  "elapsedTime (currentMetrics (calculateSpeed now s)) = real_of_int (now - startTime s) / 1000"
  by (simp add: calculateSpeed_def Let_def)

lemma calculateSpeed_currentSpeed:
  "currentSpeed (currentMetrics (calculateSpeed now s)) =
     (if 0 < real_of_int (now - startTime s) / 1000 \<and> 1 < length (tokenBuffer s)
         \<and> 0 < real_of_int (now - timestamp (tokenBuffer s ! 0)) / 1000
      then real_of_int (sum_list (map count (tokenBuffer s)))
             / (real_of_int (now - timestamp (tokenBuffer s ! 0)) / 1000)
      else currentSpeed (currentMetrics s))"
  by (simp add: calculateSpeed_def Let_def foldl_count)

lemma calculateSpeed_averageSpeed:
  "averageSpeed (currentMetrics (calculateSpeed now s)) =
     (if 0 < real_of_int (now - startTime s) / 1000
      then real_of_int (totalTokens (currentMetrics s)) / (real_of_int (now - startTime s) / 1000)
      else averageSpeed (currentMetrics s))"
  by (simp add: calculateSpeed_def Let_def)

lemma calculateSpeed_peakSpeed:
  "peakSpeed (currentMetrics (calculateSpeed now s)) =
     (if 0 < real_of_int (now - startTime s) / 1000
      then max (peakSpeed (currentMetrics s)) (currentSpeed (currentMetrics (calculateSpeed now s)))
      else peakSpeed (currentMetrics s))"
  by (simp add: calculateSpeed_def Let_def max_def)

lemma calculateSpeed_peak_mono:
  "peakSpeed (currentMetrics s) \<le> peakSpeed (currentMetrics (calculateSpeed now s))"
  by (simp add: calculateSpeed_peakSpeed)

lemma calculateSpeed_peak_ge_current:
  "currentSpeed (currentMetrics s) \<le> peakSpeed (currentMetrics s) \<Longrightarrow>
   currentSpeed (currentMetrics (calculateSpeed now s))
     \<le> peakSpeed (currentMetrics (calculateSpeed now s))"
  by (simp add: calculateSpeed_peakSpeed) (simp add: calculateSpeed_currentSpeed)

lemma calculateSpeed_idem: "calculateSpeed now (calculateSpeed now s) = calculateSpeed now s"
  by (simp add: calculateSpeed_def Let_def)

subsection \<open>The display\<close>

lemma throttledUpdateDisplay_frame:
  "currentMetrics (throttledUpdateDisplay now showIcon s) = currentMetrics s"
  "isTracking (throttledUpdateDisplay now showIcon s) = isTracking s"
  "startTime (throttledUpdateDisplay now showIcon s) = startTime s"
  "tokenBuffer (throttledUpdateDisplay now showIcon s) = tokenBuffer s"
  "emitted (throttledUpdateDisplay now showIcon s) = emitted s"
  "metricsUpdateInterval (throttledUpdateDisplay now showIcon s) = metricsUpdateInterval s"
  "hideTimeout (throttledUpdateDisplay now showIcon s) = hideTimeout s"
  by (simp_all add: throttledUpdateDisplay_def updateDisplay_def Let_def)

lemma throttledUpdateDisplay_closed:
  "now - lastDisplayUpdate s < DISPLAY_THROTTLE_MS \<Longrightarrow> throttledUpdateDisplay now showIcon s = s"
  by (simp add: throttledUpdateDisplay_def)

lemma display_frame:
  "displayLog (startTracking modelName now s) = displayLog s"
  "displayLog (stopTracking s) = displayLog s"
  "displayLog (resetMetrics s) = displayLog s"
  "displayLog (dispose s) = displayLog s"
  "displayLog (metricsUpdateTick s) = displayLog s"
  "displayLog (hideTimeoutFire s) = displayLog s"
  "lastDisplayUpdate (startTracking modelName now s) = lastDisplayUpdate s"
  "lastDisplayUpdate (stopTracking s) = lastDisplayUpdate s"
  "lastDisplayUpdate (resetMetrics s) = lastDisplayUpdate s"
  "lastDisplayUpdate (dispose s) = lastDisplayUpdate s"
  "lastDisplayUpdate (metricsUpdateTick s) = lastDisplayUpdate s"
  "lastDisplayUpdate (hideTimeoutFire s) = lastDisplayUpdate s"
  by (simp_all add: startTracking_def resetMetrics_def stopTracking_def dispose_def
      metricsUpdateTick_def hideTimeoutFire_def clearTimeouts_eq emit_def Let_def)

subsection \<open>addTokens\<close>

lemma addTokens_isTracking:
  "isTracking (addTokens cnt now nowCalc nowDisp showIcon s) = isTracking s"
  by (simp add: addTokens_def Let_def throttledUpdateDisplay_frame calculateSpeed_frame)

lemma addTokens_totalTokens:
  "isTracking s \<Longrightarrow>
   totalTokens (currentMetrics (addTokens cnt now nowCalc nowDisp showIcon s))
     = totalTokens (currentMetrics s) + cnt"
  by (simp add: addTokens_def Let_def throttledUpdateDisplay_frame calculateSpeed_totalTokens)

lemma addTokens_tokenBuffer:
  "isTracking s \<Longrightarrow> cnt \<noteq> 0 \<Longrightarrow>
   tokenBuffer (addTokens cnt now nowCalc nowDisp showIcon s)
     = filter (\<lambda>point. timestamp point > now - 1000)
         (tokenBuffer s @ [\<lparr>count = cnt, timestamp = now\<rparr>])"
  by (simp add: addTokens_def Let_def throttledUpdateDisplay_frame calculateSpeed_frame const_defs)

lemma addTokens_currentSpeed:
  "isTracking s \<Longrightarrow> cnt \<noteq> 0 \<Longrightarrow>
   currentSpeed (currentMetrics (addTokens cnt now nowCalc nowDisp showIcon s)) =
     (let kept = filter (\<lambda>point. now - 1000 < timestamp point)
                   (tokenBuffer s @ [\<lparr>count = cnt, timestamp = now\<rparr>])
      in if 0 < real_of_int (nowCalc - startTime s) / 1000 \<and> 1 < length kept
            \<and> 0 < real_of_int (nowCalc - timestamp (kept ! 0)) / 1000
         then real_of_int (sum_list (map count kept))
                / (real_of_int (nowCalc - timestamp (kept ! 0)) / 1000)
         else currentSpeed (currentMetrics s))"
  by (simp add: addTokens_def Let_def throttledUpdateDisplay_frame calculateSpeed_currentSpeed
      const_defs)

lemma addTokens_averageSpeed:
  "isTracking s \<Longrightarrow> cnt \<noteq> 0 \<Longrightarrow>
   averageSpeed (currentMetrics (addTokens cnt now nowCalc nowDisp showIcon s)) =
     (if 0 < real_of_int (nowCalc - startTime s) / 1000
      then real_of_int (totalTokens (currentMetrics s) + cnt)
             / (real_of_int (nowCalc - startTime s) / 1000)
      else averageSpeed (currentMetrics s))"
  by (simp add: addTokens_def Let_def throttledUpdateDisplay_frame calculateSpeed_averageSpeed)

lemma addTokens_display:
  "isTracking s \<Longrightarrow> cnt \<noteq> 0 \<Longrightarrow>
   displayLog (addTokens cnt now nowCalc nowDisp showIcon s)
     = (if nowDisp - lastDisplayUpdate s \<ge> 100 then displayLog s @ [nowDisp] else displayLog s)"
  "isTracking s \<Longrightarrow> cnt \<noteq> 0 \<Longrightarrow>
   lastDisplayUpdate (addTokens cnt now nowCalc nowDisp showIcon s)
     = (if nowDisp - lastDisplayUpdate s \<ge> 100 then nowDisp else lastDisplayUpdate s)"
  by (simp_all add: addTokens_def Let_def throttledUpdateDisplay_def updateDisplay_def
      calculateSpeed_frame const_defs)

text \<open>
  The monitor on which \<open>addTokens\<close> runs \<open>calculateSpeed\<close>: the total is updated, the
  arrival appended and the buffer filtered.
\<close>

lemma addTokens_peak_mono:
  "peakSpeed (currentMetrics s)
     \<le> peakSpeed (currentMetrics (addTokens cnt now nowCalc nowDisp showIcon s))"
proof (cases "\<not> isTracking s \<or> cnt = 0")
  case True
  then show ?thesis by (simp add: addTokens_def)
next
  case False
  let ?s3 = "s\<lparr>currentMetrics :=
                  (currentMetrics s)\<lparr>totalTokens := totalTokens (currentMetrics s) + cnt\<rparr>,
                tokenBuffer :=
                  filter (\<lambda>point. now - SPEED_BUFFER_SIZE * DISPLAY_THROTTLE_MS < timestamp point)
                    (tokenBuffer s @ [\<lparr>count = cnt, timestamp = now\<rparr>])\<rparr>"
  have "peakSpeed (currentMetrics ?s3) \<le> peakSpeed (currentMetrics (calculateSpeed nowCalc ?s3))"
    by (rule calculateSpeed_peak_mono)
  with False show ?thesis
    by (simp add: addTokens_def Let_def throttledUpdateDisplay_frame)
qed

lemma addTokens_peak_ge_current:
  assumes "currentSpeed (currentMetrics s) \<le> peakSpeed (currentMetrics s)"
  shows "currentSpeed (currentMetrics (addTokens cnt now nowCalc nowDisp showIcon s))
           \<le> peakSpeed (currentMetrics (addTokens cnt now nowCalc nowDisp showIcon s))"
proof (cases "\<not> isTracking s \<or> cnt = 0")
  case True
  with assms show ?thesis by (simp add: addTokens_def)
next
  case False
  let ?s3 = "s\<lparr>currentMetrics :=
                  (currentMetrics s)\<lparr>totalTokens := totalTokens (currentMetrics s) + cnt\<rparr>,
                tokenBuffer :=
                  filter (\<lambda>point. now - SPEED_BUFFER_SIZE * DISPLAY_THROTTLE_MS < timestamp point)
                    (tokenBuffer s @ [\<lparr>count = cnt, timestamp = now\<rparr>])\<rparr>"
  have "currentSpeed (currentMetrics ?s3) \<le> peakSpeed (currentMetrics ?s3)"
    using assms by simp
  then have "currentSpeed (currentMetrics (calculateSpeed nowCalc ?s3))
      \<le> peakSpeed (currentMetrics (calculateSpeed nowCalc ?s3))"
    by (rule calculateSpeed_peak_ge_current)
  with False show ?thesis
    by (simp add: addTokens_def Let_def throttledUpdateDisplay_frame)
qed

subsection \<open>The other methods and the timer callbacks\<close>

lemma other_currentMetrics:
  "currentMetrics (stopTracking s) = currentMetrics s"
  "currentMetrics (dispose s) = currentMetrics s"
  "currentMetrics (metricsUpdateTick s) = currentMetrics s"
  "currentMetrics (hideTimeoutFire s) = currentMetrics s"
  by (simp_all add: stopTracking_def dispose_def metricsUpdateTick_def hideTimeoutFire_def
      clearTimeouts_eq emit_def Let_def)

lemma reset_currentMetrics:
  "currentMetrics (resetMetrics s) =
     \<lparr>currentSpeed = 0, averageSpeed = 0, peakSpeed = 0, totalTokens = 0, elapsedTime = 0\<rparr>"
  "currentMetrics (startTracking modelName now s) =
     \<lparr>currentSpeed = 0, averageSpeed = 0, peakSpeed = 0, totalTokens = 0, elapsedTime = 0\<rparr>"
  by (simp_all add: resetMetrics_def startTracking_def clearTimeouts_eq emit_def Let_def)

lemma startTracking_isTracking: "isTracking (startTracking modelName now s)"
  by (simp add: resetMetrics_def startTracking_def clearTimeouts_eq emit_def Let_def)

lemma new_metrics:
  "currentMetrics newTokenSpeedMonitor =
     \<lparr>currentSpeed = 0, averageSpeed = 0, peakSpeed = 0, totalTokens = 0, elapsedTime = 0\<rparr>"
  by (simp add: newTokenSpeedMonitor_def resetMetrics_def)

section \<open>Facts about runs\<close>

lemma step_peak_mono:
  "\<not> resetsMetrics x \<Longrightarrow> peakSpeed (currentMetrics s) \<le> peakSpeed (currentMetrics (step x s))"
  by (cases x) (simp_all add: addTokens_peak_mono other_currentMetrics)

lemma step_peak_ge_current:
  "currentSpeed (currentMetrics s) \<le> peakSpeed (currentMetrics s) \<Longrightarrow>
   currentSpeed (currentMetrics (step x s)) \<le> peakSpeed (currentMetrics (step x s))"
  by (cases x)
    (simp_all add: addTokens_peak_ge_current other_currentMetrics reset_currentMetrics)

lemma run_peak_mono:
  "\<forall>x \<in> set ops. \<not> resetsMetrics x \<Longrightarrow>
   peakSpeed (currentMetrics s) \<le> peakSpeed (currentMetrics (run ops s))"
proof (induction ops arbitrary: s)
  case Nil
  show ?case by simp
next
  case (Cons x ops)
  have "peakSpeed (currentMetrics s) \<le> peakSpeed (currentMetrics (step x s))"
    using Cons.prems by (simp add: step_peak_mono)
  also have "\<dots> \<le> peakSpeed (currentMetrics (run ops (step x s)))"
    using Cons.prems by (intro Cons.IH) simp
  finally show ?case by simp
qed

lemma run_peak_ge_current:
  "currentSpeed (currentMetrics s) \<le> peakSpeed (currentMetrics s) \<Longrightarrow>
   currentSpeed (currentMetrics (run ops s)) \<le> peakSpeed (currentMetrics (run ops s))"
  by (induction ops arbitrary: s) (simp_all add: step_peak_ge_current)

lemma step_isTracking: "\<not> startsTracking x \<Longrightarrow> \<not> isTracking s \<Longrightarrow> \<not> isTracking (step x s)"
  by (cases x) (simp_all add: addTokens_isTracking resetMetrics_def stopTracking_def dispose_def
      metricsUpdateTick_def hideTimeoutFire_def clearTimeouts_eq emit_def Let_def)

lemma step_idle_total:
  "\<not> startsTracking x \<Longrightarrow> \<not> isTracking s \<Longrightarrow>
   totalTokens (currentMetrics s) = 0 \<Longrightarrow> totalTokens (currentMetrics (step x s)) = 0"
  by (cases x) (simp_all add: addTokens_def other_currentMetrics reset_currentMetrics)

lemma step_idle_buffer:
  "\<not> startsTracking x \<Longrightarrow> \<not> isTracking s \<Longrightarrow>
   tokenBuffer s = [] \<Longrightarrow> tokenBuffer (step x s) = []"
  by (cases x) (simp_all add: addTokens_def resetMetrics_def stopTracking_def dispose_def
      metricsUpdateTick_def hideTimeoutFire_def clearTimeouts_eq emit_def Let_def)

lemma run_idle:
  "\<forall>x \<in> set ops. \<not> startsTracking x \<Longrightarrow> \<not> isTracking s \<Longrightarrow>
   totalTokens (currentMetrics s) = 0 \<Longrightarrow> tokenBuffer s = [] \<Longrightarrow>
   \<not> isTracking (run ops s) \<and> totalTokens (currentMetrics (run ops s)) = 0
     \<and> tokenBuffer (run ops s) = []"
  by (induction ops arbitrary: s) (simp_all add: step_isTracking step_idle_total step_idle_buffer)

lemma step_total_mono:
  "\<not> resetsMetrics x \<Longrightarrow> 0 \<le> addedCount x \<Longrightarrow>
   totalTokens (currentMetrics s) \<le> totalTokens (currentMetrics (step x s))"
proof (cases x)
  case (AddTokens cnt now nowCalc nowDisp showIcon)
  assume "0 \<le> addedCount x"
  with AddTokens show ?thesis
    by (cases "isTracking s") (simp_all add: addTokens_totalTokens, simp add: addTokens_def)
qed (simp_all add: other_currentMetrics)

lemma run_total_mono:
  "\<forall>x \<in> set ops. \<not> resetsMetrics x \<and> 0 \<le> addedCount x \<Longrightarrow>
   totalTokens (currentMetrics s) \<le> totalTokens (currentMetrics (run ops s))"
proof (induction ops arbitrary: s)
  case Nil
  show ?case by simp
next
  case (Cons x ops)
  have "totalTokens (currentMetrics s) \<le> totalTokens (currentMetrics (step x s))"
    using Cons.prems by (simp add: step_total_mono)
  also have "\<dots> \<le> totalTokens (currentMetrics (run ops (step x s)))"
    using Cons.prems by (intro Cons.IH) simp
  finally show ?case by simp
qed

lemma step_total:
  "\<not> resetsMetrics x \<Longrightarrow>
   totalTokens (currentMetrics (step x s))
     = totalTokens (currentMetrics s) + (if isTracking s then addedCount x else 0)"
proof (cases x)
  case (AddTokens cnt now nowCalc nowDisp showIcon)
  then show ?thesis
    by (cases "isTracking s") (simp_all add: addTokens_totalTokens, simp add: addTokens_def)
qed (simp_all add: other_currentMetrics)

lemma run_total_counted:
  "\<forall>x \<in> set ops. \<not> resetsMetrics x \<Longrightarrow>
   totalTokens (currentMetrics (run ops s)) = totalTokens (currentMetrics s) + countedTokens ops s"
proof (induction ops arbitrary: s)
  case Nil
  show ?case by simp
next
  case (Cons x ops)
  have "totalTokens (currentMetrics (run ops (step x s)))
      = totalTokens (currentMetrics (step x s)) + countedTokens ops (step x s)"
    using Cons.prems by (intro Cons.IH) simp
  moreover have "totalTokens (currentMetrics (step x s))
      = totalTokens (currentMetrics s) + (if isTracking s then addedCount x else 0)"
    using Cons.prems by (simp add: step_total)
  ultimately show ?case by simp
qed

lemma step_stays_tracking: "x \<noteq> StopTracking \<Longrightarrow> isTracking s \<Longrightarrow> isTracking (step x s)"
  by (cases x) (simp_all add: addTokens_isTracking startTracking_isTracking resetMetrics_def
      dispose_def metricsUpdateTick_def hideTimeoutFire_def clearTimeouts_eq emit_def Let_def)

lemma countedTokens_tracking:
  "isTracking s \<Longrightarrow> \<forall>x \<in> set ops. x \<noteq> StopTracking \<Longrightarrow>
   countedTokens ops s = sum_list (map addedCount ops)"
  by (induction ops arbitrary: s) (simp_all add: step_stays_tracking)

lemma addedCount_addCall: "map addedCount (map addCall calls) = map fst calls"
  by (induction calls) auto

lemma addCall_plain:
  "x \<in> set (map addCall calls) \<Longrightarrow> \<not> resetsMetrics x \<and> x \<noteq> StopTracking"
  by auto

text \<open>
  The invariant of the throttle gate: the logged refresh instants are at least 100 ms
  apart, none is later than \<open>lastDisplayUpdate\<close>, and the latest one is
  \<open>lastDisplayUpdate\<close>.
\<close>

lemma step_display_inv:
  assumes "sorted_wrt (\<lambda>a b. a + 100 \<le> b) (displayLog s)"
    and "\<forall>y \<in> set (displayLog s). y \<le> lastDisplayUpdate s"
    and "displayLog s \<noteq> [] \<longrightarrow> last (displayLog s) = lastDisplayUpdate s"
  shows "sorted_wrt (\<lambda>a b. a + 100 \<le> b) (displayLog (step x s))
    \<and> (\<forall>y \<in> set (displayLog (step x s)). y \<le> lastDisplayUpdate (step x s))
    \<and> (displayLog (step x s) \<noteq> [] \<longrightarrow>
          last (displayLog (step x s)) = lastDisplayUpdate (step x s))"
proof (cases x)
  case (AddTokens cnt now nowCalc nowDisp showIcon)
  show ?thesis
  proof (cases "\<not> isTracking s \<or> cnt = 0")
    case True
    with assms AddTokens show ?thesis by (simp add: addTokens_def)
  next
    case False
    with assms AddTokens show ?thesis
      by (auto simp add: addTokens_display sorted_wrt_append)
  qed
qed (insert assms, simp_all add: display_frame)

lemma run_display_inv:
  assumes "sorted_wrt (\<lambda>a b. a + 100 \<le> b) (displayLog s)"
    and "\<forall>y \<in> set (displayLog s). y \<le> lastDisplayUpdate s"
    and "displayLog s \<noteq> [] \<longrightarrow> last (displayLog s) = lastDisplayUpdate s"
  shows "sorted_wrt (\<lambda>a b. a + 100 \<le> b) (displayLog (run ops s))
    \<and> (\<forall>y \<in> set (displayLog (run ops s)). y \<le> lastDisplayUpdate (run ops s))
    \<and> (displayLog (run ops s) \<noteq> [] \<longrightarrow>
          last (displayLog (run ops s)) = lastDisplayUpdate (run ops s))"
  using assms
proof (induction ops arbitrary: s)
  case Nil
  then show ?case by simp
next
  case (Cons x ops)
  have "sorted_wrt (\<lambda>a b. a + 100 \<le> b) (displayLog (step x s))
    \<and> (\<forall>y \<in> set (displayLog (step x s)). y \<le> lastDisplayUpdate (step x s))
    \<and> (displayLog (step x s) \<noteq> [] \<longrightarrow>
          last (displayLog (step x s)) = lastDisplayUpdate (step x s))"
    using Cons.prems by (rule step_display_inv)
  then show ?case using Cons.IH [of "step x s"] by simp
qed

lemma reachable_display_inv:
  "sorted_wrt (\<lambda>a b. a + 100 \<le> b) (displayLog (run ops newTokenSpeedMonitor))
    \<and> (\<forall>y \<in> set (displayLog (run ops newTokenSpeedMonitor)).
          y \<le> lastDisplayUpdate (run ops newTokenSpeedMonitor))
    \<and> (displayLog (run ops newTokenSpeedMonitor) \<noteq> [] \<longrightarrow>
          last (displayLog (run ops newTokenSpeedMonitor))
            = lastDisplayUpdate (run ops newTokenSpeedMonitor))"
  by (rule run_display_inv) (simp_all add: newTokenSpeedMonitor_def resetMetrics_def)

subsection \<open>The concrete runs\<close>

lemma session_state:
  "run session newTokenSpeedMonitor =
    \<lparr>statusBarItem =
       \<lparr>itemText = SpeedText (Some Rocket) 100, itemVisible = True, itemDisposed = False\<rparr>,
     currentMetrics =
       \<lparr>currentSpeed = 100, averageSpeed = 50, peakSpeed = 100, totalTokens = 10,
        elapsedTime = 1 / 5\<rparr>,
     isTracking = True, startTime = 0,
     tokenBuffer = [\<lparr>count = 5, timestamp = 100\<rparr>, \<lparr>count = 5, timestamp = 200\<rparr>],
     lastDisplayUpdate = 200, metricsUpdateInterval = Some Pending, hideTimeout = None,
     emitted = [TrackingStarted ''modelA''], displayLog = [100, 200]\<rparr>"
  by (simp add: session_def eval_defs)

lemma burst_log: "displayLog (run (session @ burst) newTokenSpeedMonitor) = [100, 200, 300]"
  by (simp add: run_append session_state) (simp add: burst_def eval_defs)

section \<open>The total token count\<close>

text \<open>
  C1, as the code has it. \<open>startTracking\<close> resets \<open>totalTokens\<close> to 0 and a call
  \<open>addTokens(c)\<close> with \<open>c \<ge> 1\<close> while tracking adds exactly \<open>c\<close> to it. After
  \<open>startTracking\<close> and any run of operations none of which is \<open>startTracking\<close> or the
  public \<open>resetMetrics\<close> (calls of \<open>addTokens\<close> with any clock readings, mixed with the
  timer callbacks, \<open>dispose\<close> and \<open>stopTracking\<close>), \<open>totalTokens\<close> is the sum of the
  counts of the calls of \<open>addTokens\<close> made while the monitor was tracking; when the run
  has no \<open>stopTracking\<close> either, that is the sum of the counts of all its calls of
  \<open>addTokens\<close>. In particular this holds for a run that consists of calls
  \<open>addTokens(c)\<close> with \<open>c \<ge> 1\<close> only.
\<close>

theorem totalTokens_sum:
  "totalTokens (currentMetrics (startTracking modelName startNow s)) = 0
   \<and> (isTracking s \<and> 1 \<le> cnt \<longrightarrow>
        totalTokens (currentMetrics (addTokens cnt now nowCalc nowDisp showIcon s))
          = totalTokens (currentMetrics s) + cnt)
   \<and> ((\<forall>x \<in> set ops. \<not> resetsMetrics x) \<longrightarrow>
        totalTokens (currentMetrics (run ops (startTracking modelName startNow s)))
          = countedTokens ops (startTracking modelName startNow s))
   \<and> ((\<forall>x \<in> set ops. \<not> resetsMetrics x \<and> x \<noteq> StopTracking) \<longrightarrow>
        totalTokens (currentMetrics (run ops (startTracking modelName startNow s)))
          = sum_list (map addedCount ops))
   \<and> ((\<forall>c \<in> set (map fst calls). 1 \<le> c) \<longrightarrow>
        totalTokens (currentMetrics (run (map addCall calls) (startTracking modelName startNow s)))
          = sum_list (map fst calls))"
proof (intro conjI impI)
  let ?t = "startTracking modelName startNow s"
  have zero: "totalTokens (currentMetrics ?t) = 0"
    by (simp add: reset_currentMetrics)
  have tracking: "isTracking ?t"
    by (rule startTracking_isTracking)
  show "totalTokens (currentMetrics ?t) = 0"
    by (rule zero)
  {
    assume "isTracking s \<and> 1 \<le> cnt"
    then show "totalTokens (currentMetrics (addTokens cnt now nowCalc nowDisp showIcon s))
        = totalTokens (currentMetrics s) + cnt"
      by (simp add: addTokens_totalTokens)
  }
  {
    assume "\<forall>x \<in> set ops. \<not> resetsMetrics x"
    then have "totalTokens (currentMetrics (run ops ?t))
        = totalTokens (currentMetrics ?t) + countedTokens ops ?t"
      by (rule run_total_counted)
    then show "totalTokens (currentMetrics (run ops ?t)) = countedTokens ops ?t"
      by (simp add: zero)
  }
  {
    assume plain: "\<forall>x \<in> set ops. \<not> resetsMetrics x \<and> x \<noteq> StopTracking"
    then have "totalTokens (currentMetrics (run ops ?t))
        = totalTokens (currentMetrics ?t) + countedTokens ops ?t"
      by (intro run_total_counted) simp
    moreover have "countedTokens ops ?t = sum_list (map addedCount ops)"
      using tracking plain by (intro countedTokens_tracking) simp_all
    ultimately show "totalTokens (currentMetrics (run ops ?t)) = sum_list (map addedCount ops)"
      by (simp add: zero)
  }
  {
    have plain: "\<forall>x \<in> set (map addCall calls). \<not> resetsMetrics x"
      using addCall_plain by blast
    have stay: "\<forall>x \<in> set (map addCall calls). x \<noteq> StopTracking"
      using addCall_plain by blast
    have "totalTokens (currentMetrics (run (map addCall calls) ?t))
        = totalTokens (currentMetrics ?t) + countedTokens (map addCall calls) ?t"
      using plain by (rule run_total_counted)
    moreover have "countedTokens (map addCall calls) ?t
        = sum_list (map addedCount (map addCall calls))"
      using tracking stay by (rule countedTokens_tracking)
    ultimately show "totalTokens (currentMetrics (run (map addCall calls) ?t))
        = sum_list (map fst calls)"
      by (simp only: zero addedCount_addCall)
  }
qed

theorem totalTokens_sum_witness:
  "totalTokens (currentMetrics (run mixed (startTracking ''modelA'' 0 newTokenSpeedMonitor))) = 10
   \<and> totalTokens (currentMetrics
        (run (take 4 mixed) (startTracking ''modelA'' 0 newTokenSpeedMonitor))) = 10
   \<and> totalTokens (currentMetrics
        (run (map addCall [(5, 0, 0, 0, True), (5, 500, 500, 500, True)])
           (startTracking ''modelA'' 0 newTokenSpeedMonitor))) = 10
   \<and> totalTokens (currentMetrics
        (addTokens 7 300 300 300 True (run session newTokenSpeedMonitor))) = 17"
  using totalTokens_sum
    [where modelName = "''modelA''" and startNow = 0 and s = newTokenSpeedMonitor
       and ops = mixed and calls = "[(5, 0, 0, 0, True), (5, 500, 500, 500, True)]"]
    totalTokens_sum
    [where modelName = "''modelA''" and startNow = 0 and s = newTokenSpeedMonitor
       and ops = "take 4 mixed" and calls = "[]"]
    totalTokens_sum
    [where s = "run session newTokenSpeedMonitor" and cnt = 7 and now = 300 and nowCalc = 300
       and nowDisp = 300 and showIcon = True and calls = "[]" and ops = "[]"]
  by (simp add: session_state mixed_def startTracking_isTracking addTokens_isTracking
      stopTracking_def metricsUpdateTick_def dispose_def clearTimeouts_eq emit_def Let_def)

text \<open>
  C1, as stated, fails: \<open>resetMetrics\<close> is a public method that zeroes \<open>totalTokens\<close>
  without ending the session. After \<open>startTracking\<close>, \<open>addTokens(5)\<close>, \<open>resetMetrics\<close>
  and \<open>addTokens(3)\<close> the monitor is still tracking, both calls were made while tracking
  since the last \<open>startTracking\<close> and their counts sum to 8, but \<open>totalTokens\<close> is 3.
\<close>

theorem resetMetrics_total_counterexample:
  "isTracking (run (take 2 interrupted) newTokenSpeedMonitor)
   \<and> isTracking (run (take 3 interrupted) newTokenSpeedMonitor)
   \<and> isTracking (run interrupted newTokenSpeedMonitor)
   \<and> sum_list (map addedCount interrupted) = 8
   \<and> totalTokens (currentMetrics (run interrupted newTokenSpeedMonitor)) = 3"
  by (simp add: interrupted_def eval_defs)

section \<open>The recompute step\<close>

text \<open>
  C2. In \<open>calculateSpeed\<close>, with \<open>elapsed = (now - startTime) / 1000\<close>: if
  \<open>elapsed \<le> 0\<close> the three speeds keep their previous values. \<open>currentSpeed\<close> is
  recomputed only when (\<open>elapsed\<close> is positive and) the buffer holds more than one arrival
  and the span \<open>(now - timestamp of the oldest buffered arrival) / 1000\<close> is positive; it
  is then the sum of the counts over the buffer divided by that span. In every other case
  \<open>currentSpeed\<close> is unchanged. The oldest buffered arrival is the first element of the
  buffer, and the reduce of the source computes the sum of the counts.
\<close>

theorem calculateSpeed_cases:
  "(let elapsed = real_of_int (now - startTime s) / 1000;
        timeSpan = real_of_int (now - timestamp (tokenBuffer s ! 0)) / 1000;
        recentTokens = sum_list (map count (tokenBuffer s));
        before = currentMetrics s;
        after = currentMetrics (calculateSpeed now s)
    in (elapsed \<le> 0 \<longrightarrow>
          currentSpeed after = currentSpeed before \<and> averageSpeed after = averageSpeed before
          \<and> peakSpeed after = peakSpeed before)
     \<and> (0 < elapsed \<and> 1 < length (tokenBuffer s) \<and> 0 < timeSpan \<longrightarrow>
          currentSpeed after = real_of_int recentTokens / timeSpan)
     \<and> (\<not> (0 < elapsed \<and> 1 < length (tokenBuffer s) \<and> 0 < timeSpan) \<longrightarrow>
          currentSpeed after = currentSpeed before))"
  unfolding Let_def
  by (simp add: calculateSpeed_currentSpeed calculateSpeed_averageSpeed calculateSpeed_peakSpeed)

theorem calculateSpeed_cases_witness:
  "currentSpeed (currentMetrics (calculateSpeed 300 (run session newTokenSpeedMonitor))) = 50
   \<and> currentSpeed (currentMetrics (calculateSpeed 0 (run session newTokenSpeedMonitor))) = 100
   \<and> averageSpeed (currentMetrics (calculateSpeed 0 (run session newTokenSpeedMonitor))) = 50
   \<and> peakSpeed (currentMetrics (calculateSpeed 0 (run session newTokenSpeedMonitor))) = 100"
  using calculateSpeed_cases [of 300 "run session newTokenSpeedMonitor"]
    calculateSpeed_cases [of 0 "run session newTokenSpeedMonitor"]
  by (simp add: session_state Let_def)

section \<open>The peak speed\<close>

text \<open>
  C3, as the code has it. \<open>peakSpeed\<close> does not decrease across any run of operations
  none of which is \<open>startTracking\<close> or the public \<open>resetMetrics\<close> (that is, across
  \<open>addTokens\<close>, \<open>stopTracking\<close>, \<open>dispose\<close> and the two timer callbacks), in any state.
  \<open>peakSpeed \<ge> currentSpeed\<close> holds in every state a monitor can reach from its
  construction, whatever the operations. \<open>startTracking\<close> and \<open>resetMetrics\<close> both set
  \<open>peakSpeed\<close> to 0.
\<close>

theorem peakSpeed_ratchet:
  "((\<forall>x \<in> set ops. \<not> resetsMetrics x) \<longrightarrow>
      peakSpeed (currentMetrics s) \<le> peakSpeed (currentMetrics (run ops s)))
   \<and> currentSpeed (currentMetrics (run ops newTokenSpeedMonitor))
        \<le> peakSpeed (currentMetrics (run ops newTokenSpeedMonitor))
   \<and> peakSpeed (currentMetrics (startTracking modelName now s)) = 0
   \<and> peakSpeed (currentMetrics (resetMetrics s)) = 0"
proof (intro conjI impI)
  assume "\<forall>x \<in> set ops. \<not> resetsMetrics x"
  then show "peakSpeed (currentMetrics s) \<le> peakSpeed (currentMetrics (run ops s))"
    by (rule run_peak_mono)
next
  show "currentSpeed (currentMetrics (run ops newTokenSpeedMonitor))
      \<le> peakSpeed (currentMetrics (run ops newTokenSpeedMonitor))"
    by (rule run_peak_ge_current) (simp add: new_metrics)
next
  show "peakSpeed (currentMetrics (startTracking modelName now s)) = 0"
    by (simp add: reset_currentMetrics)
next
  show "peakSpeed (currentMetrics (resetMetrics s)) = 0"
    by (simp add: reset_currentMetrics)
qed

theorem peakSpeed_ratchet_witness:
  "peakSpeed (currentMetrics (run session newTokenSpeedMonitor)) = 100
   \<and> 100 \<le> peakSpeed (currentMetrics
        (run [AddTokens 1 900 900 900 True, MetricsUpdateTick, StopTracking, HideTimeoutFire]
           (run session newTokenSpeedMonitor)))"
  using peakSpeed_ratchet
    [of "[AddTokens 1 900 900 900 True, MetricsUpdateTick, StopTracking, HideTimeoutFire]"
        "run session newTokenSpeedMonitor"]
  by (simp add: session_state)

text \<open>
  C3, as stated, fails: \<open>resetMetrics\<close> is a public method, it is not \<open>startTracking\<close>, and
  called in the middle of a session it takes \<open>peakSpeed\<close> from 100 back to 0 while the
  monitor stays in the same session.
\<close>

theorem peakSpeed_reset_counterexample:
  "isTracking (run session newTokenSpeedMonitor)
   \<and> peakSpeed (currentMetrics (run session newTokenSpeedMonitor)) = 100
   \<and> isTracking (step ResetMetrics (run session newTokenSpeedMonitor))
   \<and> startTime (step ResetMetrics (run session newTokenSpeedMonitor))
       = startTime (run session newTokenSpeedMonitor)
   \<and> peakSpeed (currentMetrics (step ResetMetrics (run session newTokenSpeedMonitor))) = 0"
  by (simp add: session_state resetMetrics_def)

section \<open>Negative counts\<close>

text \<open>
  C4, as the code has it. \<open>addTokens\<close> neither rejects nor clamps a negative count: while
  tracking, a call with \<open>count < 0\<close> adds \<open>count\<close> to \<open>totalTokens\<close>, which thereby
  decreases. \<open>totalTokens\<close> does not decrease across any run of operations in which every
  count passed to \<open>addTokens\<close> is non-negative and which contains neither \<open>startTracking\<close>
  nor \<open>resetMetrics\<close>.
\<close>

theorem totalTokens_monotone:
  "(isTracking s \<and> cnt < 0 \<longrightarrow>
      totalTokens (currentMetrics (addTokens cnt now nowCalc nowDisp showIcon s))
        = totalTokens (currentMetrics s) + cnt)
   \<and> ((\<forall>x \<in> set ops. \<not> resetsMetrics x \<and> 0 \<le> addedCount x) \<longrightarrow>
        totalTokens (currentMetrics s) \<le> totalTokens (currentMetrics (run ops s)))"
  by (simp add: addTokens_totalTokens run_total_mono)

theorem totalTokens_monotone_witness:
  "totalTokens (currentMetrics
     (addTokens (- 4) 300 300 300 True (run session newTokenSpeedMonitor))) = 6
   \<and> 10 \<le> totalTokens (currentMetrics
        (run [AddTokens 1 900 900 900 True, MetricsUpdateTick, StopTracking,
              AddTokens 2 950 950 950 True]
           (run session newTokenSpeedMonitor)))"
  using totalTokens_monotone
    [of "run session newTokenSpeedMonitor" "- 4" 300 300 300 True
        "[AddTokens 1 900 900 900 True, MetricsUpdateTick, StopTracking,
          AddTokens 2 950 950 950 True]"]
  by (simp add: session_state)

text \<open>
  C4, as stated, fails: in a session just started, \<open>addTokens(-5)\<close> is processed like any
  other non-zero count and takes \<open>totalTokens\<close> from 0 to -5.
\<close>

theorem negative_count_counterexample:
  "isTracking (startTracking ''modelA'' 0 newTokenSpeedMonitor)
   \<and> totalTokens (currentMetrics (startTracking ''modelA'' 0 newTokenSpeedMonitor)) = 0
   \<and> totalTokens (currentMetrics
        (addTokens (- 5) 100 100 100 True (startTracking ''modelA'' 0 newTokenSpeedMonitor)))
       = - 5"
  by (simp add: eval_defs)

section \<open>Calls that are ignored\<close>

text \<open>
  C5. \<open>addTokens(count)\<close> returns the monitor as it was (buffer, metrics with
  \<open>totalTokens\<close>, tracking flag, timers, emitted events and display all unchanged) when the
  monitor is not tracking or \<open>count\<close> is 0. In particular, after any operations none of
  which is \<open>startTracking\<close>, on a monitor just constructed, \<open>addTokens(3)\<close> changes
  nothing, \<open>totalTokens\<close> is 0 and the buffer is empty.
\<close>

theorem addTokens_noop:
  "(\<not> isTracking s \<or> cnt = 0 \<longrightarrow> addTokens cnt now nowCalc nowDisp showIcon s = s)
   \<and> ((\<forall>x \<in> set ops. \<not> startsTracking x) \<longrightarrow>
        addTokens 3 now nowCalc nowDisp showIcon (run ops newTokenSpeedMonitor)
          = run ops newTokenSpeedMonitor
        \<and> totalTokens (currentMetrics (run ops newTokenSpeedMonitor)) = 0
        \<and> tokenBuffer (run ops newTokenSpeedMonitor) = [])"
proof -
  have "\<forall>x \<in> set ops. \<not> startsTracking x \<Longrightarrow>
      \<not> isTracking (run ops newTokenSpeedMonitor)
      \<and> totalTokens (currentMetrics (run ops newTokenSpeedMonitor)) = 0
      \<and> tokenBuffer (run ops newTokenSpeedMonitor) = []"
    by (rule run_idle) (simp_all add: newTokenSpeedMonitor_def resetMetrics_def)
  then show ?thesis by (simp add: addTokens_def)
qed

theorem addTokens_noop_witness:
  "addTokens 3 50 50 50 True newTokenSpeedMonitor = newTokenSpeedMonitor
   \<and> totalTokens (currentMetrics (addTokens 3 50 50 50 True newTokenSpeedMonitor)) = 0
   \<and> addTokens 0 300 300 300 True (run session newTokenSpeedMonitor)
       = run session newTokenSpeedMonitor
   \<and> addTokens 3 5100 5100 5100 True (run [StopTracking, HideTimeoutFire] newTokenSpeedMonitor)
       = run [StopTracking, HideTimeoutFire] newTokenSpeedMonitor"
  using addTokens_noop [of newTokenSpeedMonitor 3 50 50 50 True "[]"]
    addTokens_noop [of "run session newTokenSpeedMonitor" 0 300 300 300 True "[]"]
    addTokens_noop [of newTokenSpeedMonitor 3 5100 5100 5100 True "[StopTracking, HideTimeoutFire]"]
  by (simp add: session_state)

section \<open>Eviction from the buffer\<close>

text \<open>
  C6, as the code has it. The retention window is
  \<open>SPEED_BUFFER_SIZE * DISPLAY_THROTTLE_MS = 1000\<close> ms. Every call of \<open>addTokens\<close> that is
  processed (tracking, count not 0) leaves in the buffer exactly the arrivals, the new one
  included, whose timestamp is strictly greater than \<open>now - 1000\<close>; every arrival with a
  timestamp not strictly greater is evicted, and the new arrival always stays. When that
  call recomputes \<open>currentSpeed\<close> (positive elapsed time, more than one arrival kept,
  positive span), the value is the sum of the counts of the kept arrivals divided by the
  span from the first kept arrival, so no evicted arrival enters it. When the call does not
  recompute, \<open>currentSpeed\<close> keeps the value it had before the call.
\<close>

theorem addTokens_eviction:
  "isTracking s \<and> cnt \<noteq> 0 \<longrightarrow>
   (let kept = filter (\<lambda>point. now - 1000 < timestamp point)
                 (tokenBuffer s @ [\<lparr>count = cnt, timestamp = now\<rparr>]);
        s' = addTokens cnt now nowCalc nowDisp showIcon s;
        elapsed = real_of_int (nowCalc - startTime s) / 1000;
        timeSpan = real_of_int (nowCalc - timestamp (kept ! 0)) / 1000
    in SPEED_BUFFER_SIZE * DISPLAY_THROTTLE_MS = 1000
     \<and> tokenBuffer s' = kept
     \<and> (\<forall>point \<in> set (tokenBuffer s'). now - 1000 < timestamp point)
     \<and> \<lparr>count = cnt, timestamp = now\<rparr> \<in> set (tokenBuffer s')
     \<and> currentSpeed (currentMetrics s') =
         (if 0 < elapsed \<and> 1 < length kept \<and> 0 < timeSpan
          then real_of_int (sum_list (map count kept)) / timeSpan
          else currentSpeed (currentMetrics s)))"
  unfolding Let_def
  by (simp add: addTokens_tokenBuffer addTokens_currentSpeed [unfolded Let_def] const_defs)

theorem addTokens_eviction_witness:
  "tokenBuffer (addTokens 6 1150 1150 1150 True (run session newTokenSpeedMonitor))
     = [\<lparr>count = 5, timestamp = 200\<rparr>, \<lparr>count = 6, timestamp = 1150\<rparr>]
   \<and> currentSpeed (currentMetrics
        (addTokens 6 1150 1150 1150 True (run session newTokenSpeedMonitor)))
     = 11 / (950 / 1000)"
  using addTokens_eviction [of "run session newTokenSpeedMonitor" 6 1150 1150 1150 True]
  by (simp add: session_state Let_def)

text \<open>
  C6, as stated, fails in its second half. In the session with arrivals of 5 tokens at
  100 ms and at 200 ms, the second arrival makes \<open>currentSpeed\<close> 100. At 5000 ms, far past
  the window, a new arrival evicts both, the buffer holds the new arrival alone, nothing is
  recomputed and \<open>currentSpeed\<close> is still 100. In the same session without the arrival
  at 200 ms, \<open>currentSpeed\<close> after the arrival at 5000 ms is 0, and with 50 tokens instead
  of 5 at 200 ms it is 550. The evicted arrival decides the speed held after the later
  arrival.
\<close>

theorem frozen_speed_counterexample:
  "tokenBuffer (run (session @ [AddTokens 7 5000 5000 5000 True]) newTokenSpeedMonitor)
     = [\<lparr>count = 7, timestamp = 5000\<rparr>]
   \<and> currentSpeed (currentMetrics
        (run (session @ [AddTokens 7 5000 5000 5000 True]) newTokenSpeedMonitor)) = 100
   \<and> currentSpeed (currentMetrics
        (run [StartTracking ''modelA'' 0, AddTokens 5 100 100 100 True,
              AddTokens 7 5000 5000 5000 True]
           newTokenSpeedMonitor)) = 0
   \<and> currentSpeed (currentMetrics
        (run [StartTracking ''modelA'' 0, AddTokens 5 100 100 100 True,
              AddTokens 50 200 200 200 True, AddTokens 7 5000 5000 5000 True]
           newTokenSpeedMonitor)) = 550"
  by (simp add: session_def eval_defs)

section \<open>The average speed\<close>

text \<open>
  C7. \<open>calculateSpeed\<close> stores \<open>(now - startTime) / 1000\<close> as \<open>elapsedTime\<close> and leaves
  \<open>totalTokens\<close> as it was. Whenever that elapsed time is positive, the \<open>averageSpeed\<close>
  it stores is the total of the session so far divided by the time elapsed since the
  session started, that is, \<open>totalTokens / elapsedTime\<close>; otherwise \<open>averageSpeed\<close> is
  kept. The average does not depend on the buffer, so eviction cannot change it: after a
  processed \<open>addTokens\<close> it is the previous total plus the new count over the elapsed
  time, whatever was evicted. Running \<open>calculateSpeed\<close> a second time at the same
  instant, with no arrival in between, gives the same monitor, hence the same snapshot.
\<close>

theorem averageSpeed_whole_session:
  "(let elapsed = real_of_int (now - startTime s) / 1000;
        after = currentMetrics (calculateSpeed now s)
    in elapsedTime after = elapsed
     \<and> totalTokens after = totalTokens (currentMetrics s)
     \<and> (0 < elapsed \<longrightarrow>
          averageSpeed after = real_of_int (totalTokens (currentMetrics s)) / elapsed)
     \<and> (0 < elapsedTime after \<longrightarrow>
          averageSpeed after = real_of_int (totalTokens after) / elapsedTime after)
     \<and> (elapsed \<le> 0 \<longrightarrow> averageSpeed after = averageSpeed (currentMetrics s)))
   \<and> averageSpeed (currentMetrics (calculateSpeed now (s\<lparr>tokenBuffer := b\<rparr>)))
        = averageSpeed (currentMetrics (calculateSpeed now s))
   \<and> (isTracking s \<and> cnt \<noteq> 0 \<and> 0 < real_of_int (nowCalc - startTime s) / 1000 \<longrightarrow>
        averageSpeed (currentMetrics (addTokens cnt nowAdd nowCalc nowDisp showIcon s))
          = real_of_int (totalTokens (currentMetrics s) + cnt)
              / (real_of_int (nowCalc - startTime s) / 1000))
   \<and> calculateSpeed now (calculateSpeed now s) = calculateSpeed now s"
  unfolding Let_def
  by (simp add: calculateSpeed_averageSpeed calculateSpeed_elapsedTime calculateSpeed_totalTokens
      calculateSpeed_idem addTokens_averageSpeed)

theorem averageSpeed_whole_session_witness:
  "elapsedTime (currentMetrics (calculateSpeed 1000 (run session newTokenSpeedMonitor))) = 1
   \<and> averageSpeed (currentMetrics (calculateSpeed 1000 (run session newTokenSpeedMonitor))) = 10
   \<and> averageSpeed (currentMetrics (calculateSpeed 0 (run session newTokenSpeedMonitor))) = 50
   \<and> averageSpeed (currentMetrics
        (addTokens 6 1150 1200 1200 True (run session newTokenSpeedMonitor)))
       = 16 / (1200 / 1000)"
  using averageSpeed_whole_session
      [where now = 1000 and s = "run session newTokenSpeedMonitor" and b = "[]"
        and cnt = 6 and nowAdd = 1150 and nowCalc = 1200 and nowDisp = 1200 and showIcon = True]
    averageSpeed_whole_session
      [where now = 0 and s = "run session newTokenSpeedMonitor" and b = "[]"
        and cnt = 0 and nowAdd = 0 and nowCalc = 0 and nowDisp = 0 and showIcon = True]
  by (simp add: session_state Let_def)

section \<open>The display throttle\<close>

text \<open>
  C8. \<open>DISPLAY_THROTTLE_MS\<close> is 100. A refresh attempt on a tracking monitor refreshes the
  display exactly when \<open>now - lastDisplayUpdate \<ge> 100\<close>, and then records
  \<open>lastDisplayUpdate = now\<close>; otherwise \<open>lastDisplayUpdate\<close> is unchanged. In every run
  of a monitor from its construction, whatever the operations and however many calls of
  \<open>addTokens\<close>, any two refreshes of the display are at least 100 ms apart.
\<close>

theorem display_throttle:
  "DISPLAY_THROTTLE_MS = 100
   \<and> (isTracking s \<longrightarrow>
        displayLog (throttledUpdateDisplay now showIcon s)
          = (if DISPLAY_THROTTLE_MS \<le> now - lastDisplayUpdate s
             then displayLog s @ [now] else displayLog s))
   \<and> lastDisplayUpdate (throttledUpdateDisplay now showIcon s)
        = (if DISPLAY_THROTTLE_MS \<le> now - lastDisplayUpdate s then now else lastDisplayUpdate s)
   \<and> (i < j \<and> j < length (displayLog (run ops newTokenSpeedMonitor)) \<longrightarrow>
        displayLog (run ops newTokenSpeedMonitor) ! i + DISPLAY_THROTTLE_MS
          \<le> displayLog (run ops newTokenSpeedMonitor) ! j)"
proof -
  have "sorted_wrt (\<lambda>a b. a + 100 \<le> b) (displayLog (run ops newTokenSpeedMonitor))"
    using reachable_display_inv [of ops] by blast
  then have "i < j \<Longrightarrow> j < length (displayLog (run ops newTokenSpeedMonitor)) \<Longrightarrow>
        displayLog (run ops newTokenSpeedMonitor) ! i + 100
          \<le> displayLog (run ops newTokenSpeedMonitor) ! j"
    by (simp add: sorted_wrt_iff_nth_less)
  then show ?thesis
    by (simp add: throttledUpdateDisplay_def updateDisplay_def Let_def DISPLAY_THROTTLE_MS_def)
qed

theorem display_throttle_witness:
  "displayLog (run (session @ burst) newTokenSpeedMonitor) = [100, 200, 300]
   \<and> displayLog (throttledUpdateDisplay 260 True (run session newTokenSpeedMonitor)) = [100, 200]
   \<and> lastDisplayUpdate (throttledUpdateDisplay 300 True (run session newTokenSpeedMonitor)) = 300"
  using display_throttle [where ops = "session @ burst" and i = 0 and j = 2
       and s = "run session newTokenSpeedMonitor" and now = 260 and showIcon = True,
       unfolded DISPLAY_THROTTLE_MS_def]
    display_throttle [where ops = "[]" and i = 0 and j = 0
       and s = "run session newTokenSpeedMonitor" and now = 300 and showIcon = True,
       unfolded DISPLAY_THROTTLE_MS_def]
  by (simp add: burst_log session_state)

section \<open>Icon classification\<close>

text \<open>
  C9. The speed-to-icon classification puts every speed into exactly one of five bands,
  tested from the least to the greatest with the first match winning; each band contains
  its lower boundary and excludes its upper one. Speed 9.9 is in band 1 (below 10), speed
  10 in band 2 (below 30) and speed 100 in band 5 (100 and above).
\<close>

theorem getSpeedIcon_bands:
  "(getSpeedIcon speed = Snail) = (speed < 10)
   \<and> (getSpeedIcon speed = Walker) = (10 \<le> speed \<and> speed < 30)
   \<and> (getSpeedIcon speed = Runner) = (30 \<le> speed \<and> speed < 60)
   \<and> (getSpeedIcon speed = Car) = (60 \<le> speed \<and> speed < 100)
   \<and> (getSpeedIcon speed = Rocket) = (100 \<le> speed)
   \<and> getSpeedIcon (99 / 10) = Snail
   \<and> getSpeedIcon 10 = Walker
   \<and> getSpeedIcon 100 = Rocket"
  by (simp add: getSpeedIcon_def)

section \<open>The throttle across sessions\<close>

text \<open>
  C10. Neither \<open>startTracking\<close> nor \<open>resetMetrics\<close> changes \<open>lastDisplayUpdate\<close>, which in
  every reachable state with a refresh behind it is the instant of the last refresh. So
  the gate spans sessions: when a new session is started and its first \<open>addTokens\<close> reads
  the clock less than 100 ms after that instant, the call refreshes nothing; the display
  keeps the text of the previous session and \<open>lastDisplayUpdate\<close> stays.
\<close>

theorem throttle_spans_sessions:
  "lastDisplayUpdate (startTracking modelName t0 s) = lastDisplayUpdate s
   \<and> lastDisplayUpdate (resetMetrics s) = lastDisplayUpdate s
   \<and> (displayLog (run ops newTokenSpeedMonitor) \<noteq> [] \<longrightarrow>
        lastDisplayUpdate (run ops newTokenSpeedMonitor)
          = last (displayLog (run ops newTokenSpeedMonitor)))
   \<and> (nowDisp - lastDisplayUpdate s < DISPLAY_THROTTLE_MS \<longrightarrow>
        (let s' = addTokens cnt now nowCalc nowDisp showIcon (startTracking modelName t0 s)
         in displayLog s' = displayLog s
          \<and> itemText (statusBarItem s') = itemText (statusBarItem s)
          \<and> lastDisplayUpdate s' = lastDisplayUpdate s))"
proof (intro conjI impI)
  show "lastDisplayUpdate (startTracking modelName t0 s) = lastDisplayUpdate s"
    by (simp add: display_frame)
next
  show "lastDisplayUpdate (resetMetrics s) = lastDisplayUpdate s"
    by (simp add: display_frame)
next
  assume "displayLog (run ops newTokenSpeedMonitor) \<noteq> []"
  then show "lastDisplayUpdate (run ops newTokenSpeedMonitor)
      = last (displayLog (run ops newTokenSpeedMonitor))"
    using reachable_display_inv [of ops] by simp
next
  assume closed: "nowDisp - lastDisplayUpdate s < DISPLAY_THROTTLE_MS"
  let ?t = "startTracking modelName t0 s"
  have text_kept: "itemText (statusBarItem ?t) = itemText (statusBarItem s)"
    by (simp add: startTracking_def resetMetrics_def clearTimeouts_eq emit_def Let_def)
  show "let s' = addTokens cnt now nowCalc nowDisp showIcon ?t
        in displayLog s' = displayLog s
         \<and> itemText (statusBarItem s') = itemText (statusBarItem s)
         \<and> lastDisplayUpdate s' = lastDisplayUpdate s"
  proof (cases "cnt = 0")
    case True
    then show ?thesis
      by (simp add: addTokens_def text_kept display_frame)
  next
    case False
    let ?c = "calculateSpeed nowCalc
        (?t\<lparr>currentMetrics :=
               (currentMetrics ?t)\<lparr>totalTokens := totalTokens (currentMetrics ?t) + cnt\<rparr>,
             tokenBuffer :=
               filter (\<lambda>point. now - SPEED_BUFFER_SIZE * DISPLAY_THROTTLE_MS < timestamp point)
                 (tokenBuffer ?t @ [\<lparr>count = cnt, timestamp = now\<rparr>])\<rparr>)"
    have "lastDisplayUpdate ?c = lastDisplayUpdate s"
      by (simp add: calculateSpeed_frame display_frame)
    with closed have "throttledUpdateDisplay nowDisp showIcon ?c = ?c"
      by (simp add: throttledUpdateDisplay_closed)
    moreover have "addTokens cnt now nowCalc nowDisp showIcon ?t
        = throttledUpdateDisplay nowDisp showIcon ?c"
      using False by (simp add: addTokens_def Let_def startTracking_isTracking)
    ultimately have "addTokens cnt now nowCalc nowDisp showIcon ?t = ?c"
      by simp
    then show ?thesis
      by (simp add: Let_def calculateSpeed_frame display_frame text_kept)
  qed
qed

theorem throttle_spans_sessions_witness:
  "last (displayLog (run (session @ [StopTracking]) newTokenSpeedMonitor)) = 200
   \<and> displayLog (addTokens 5 260 260 260 True
        (startTracking ''modelB'' 250 (run (session @ [StopTracking]) newTokenSpeedMonitor)))
       = [100, 200]
   \<and> itemText (statusBarItem (addTokens 5 260 260 260 True
        (startTracking ''modelB'' 250 (run (session @ [StopTracking]) newTokenSpeedMonitor))))
       = SpeedText (Some Rocket) 100"
  using throttle_spans_sessions
    [of "''modelB''" 250 "run (session @ [StopTracking]) newTokenSpeedMonitor"
        "session @ [StopTracking]" 260 5 260 260 True]
  by (simp add: run_append session_state stopTracking_def clearTimeouts_eq emit_def
      DISPLAY_THROTTLE_MS_def Let_def)

end
